theory Spec2Isabelle
  imports Main "HOL-Library.Word"
begin

section \<open>The tx middlewares of package middleware\<close>

text \<open>
  A shallow embedding of the four middlewares of the file: \<open>validateBasicMiddleware\<close>,
  \<open>txTimeoutHeightMiddleware\<close>, \<open>validateMemoMiddleware\<close> and
  \<open>consumeTxSizeGasMiddleware\<close>, and of \<open>isIncompleteSignature\<close>.

  Go values are modelled as follows.
  \<^item> \<open>uint64\<close> and \<open>int64\<close> are \<open>64 word\<close>: \<open>*\<close> and \<open>+\<close> wrap, \<open><\<close> is the
    unsigned order, \<open>sint\<close> reads an \<open>int64\<close>, and the conversion \<open>uint64(x)\<close> of an
    \<open>int64\<close> keeps the bits.
  \<^item> \<open>[]byte\<close> is a list of \<open>8 word\<close>; a Go \<open>string\<close> is a \<open>string\<close>, one \<open>char\<close> per
    byte, so that \<open>len\<close> is \<open>length\<close>.
  \<^item> An interface value that may be \<open>nil\<close> is an \<open>option\<close>; a type assertion
    \<open>tx.(T)\<close> is a field of the transaction that is \<open>None\<close> when the assertion fails.
  \<^item> A pair \<open>(response, error)\<close> is \<open>Returned response (Some err)\<close> or
    \<open>Returned response None\<close>; a panic is \<open>Panicked\<close>. Every handler also returns the
    context as the call leaves it: its gas meter is mutated in place in Go.
\<close>

subsection \<open>Data\<close>

type_synonym byte = "8 word"
type_synonym Gas = "64 word"
type_synonym AccAddress = "byte list"

text \<open>The registered errors of \<open>sdkerrors\<close> that the file wraps.\<close>

datatype RegisteredError = ErrTxDecode | ErrTxTimeoutHeight | ErrMemoTooLarge

text \<open>
  \<open>sdkerrors.Wrap(err, description)\<close> and \<open>sdkerrors.Wrapf(err, format, args...)\<close>. The
  arguments of \<open>Wrapf\<close> are all printed with \<open>%d\<close>; the model keeps the format and the
  numbers printed instead of the formatted text. \<open>OtherError\<close> is an error made outside this
  file (by the transaction's \<open>ValidateBasic\<close> or \<open>GetSignaturesV2\<close>).
\<close>

datatype error =
    Wrap RegisteredError string
  | Wrapf RegisteredError string "int list"
  | OtherError string

text \<open>
  What a call can panic with: the gas meter's out-of-gas panic, carrying the descriptor of
  the charge, and a panic of \<open>legacy.Cdc.MustMarshal\<close>.
\<close>

datatype panic = ErrorOutOfGas string | MarshalPanic

text \<open>
  \<open>cryptotypes.PubKey\<close>. The file distinguishes \<open>*multisig.LegacyAminoPubKey\<close> (a
  threshold and its member keys) from every other key type; other keys carry the name of
  their type and their bytes.
\<close>

datatype PubKey =
    LegacyAminoPubKey nat "PubKey list"
  | PlainPubKey string "byte list"

text \<open>
  \<open>signing.SignatureData\<close>: the nil interface value, \<open>*SingleSignatureData\<close> with its
  \<open>Signature\<close> bytes, or \<open>*MultiSignatureData\<close> with its \<open>Signatures\<close>, which are
  \<open>SignatureData\<close> again and may be nil. The pointers themselves are taken to be non-nil.
\<close>

datatype SignatureData =
    NilSignatureData
  | SingleSignatureData "byte list"
  | MultiSignatureData "SignatureData list"

text \<open>\<open>signing.SignatureV2\<close>: the stage reads only \<open>Data\<close>.\<close>

record SignatureV2 =
  PubKey :: "PubKey option"
  Data :: SignatureData
  Sequence :: "64 word"

text \<open>\<open>legacytx.StdSignature\<close>, the legacy signature record that simulation serialises.\<close>

record StdSignature =
  Std_PubKey :: PubKey
  Std_Signature :: "byte list"

text \<open>
  \<open>sdk.Tx\<close> with its optional capabilities. \<open>ValidateBasic\<close> is the result of the method
  (\<open>None\<close> is a nil error). \<open>asTxWithTimeoutHeight\<close> is \<open>None\<close> when the assertion
  \<open>tx.(TxWithTimeoutHeight)\<close> fails and the result of \<open>GetTimeoutHeight\<close> otherwise;
  likewise \<open>asTxWithMemo\<close> with \<open>GetMemo\<close>, and \<open>asSigVerifiableTx\<close> with the methods
  of \<open>authsigning.SigVerifiableTx\<close> that the file calls.
\<close>

record SigVerifiableTx =
  GetSigners :: "AccAddress list"
  GetSignaturesV2 :: "error + SignatureV2 list"

record Tx =
  ValidateBasic :: "error option"
  asTxWithTimeoutHeight :: "64 word option"
  asTxWithMemo :: "string option"
  asSigVerifiableTx :: "SigVerifiableTx option"

text \<open>The chain parameters that \<open>GetParams\<close> returns, and an account with its public key.\<close>

record Params =
  MaxMemoCharacters :: "64 word"
  TxSigLimit :: "64 word"
  TxSizeCostPerByte :: "64 word"

record Account =
  GetAddress :: AccAddress
  GetPubKey :: "PubKey option"

text \<open>
  Modelled from the spec: the gas meter (\<open>sdk.GasMeter\<close>) is an external collaborator;
  "consume(amount, label), fails fatally when the cumulative consumption would exceed the
  meter's configured limit". The meter keeps its limit, the gas consumed so far and, for
  accounting, every charge made with its label, in the order of the calls. A charge that
  fails has been recorded when the panic is raised.
\<close>

record GasMeter =
  gasLimit :: nat
  gasConsumed :: nat
  gasCharges :: "(Gas \<times> string) list"

definition ConsumeGas :: "GasMeter \<Rightarrow> Gas \<Rightarrow> string \<Rightarrow> GasMeter \<times> panic option" where
  "ConsumeGas g amount descriptor =
     (let g' = g\<lparr>gasConsumed := gasConsumed g + unat amount,
                 gasCharges := gasCharges g @ [(amount, descriptor)]\<rparr>
      in (g', if gasLimit g < gasConsumed g' then Some (ErrorOutOfGas descriptor) else None))"

text \<open>
  \<open>sdk.Context\<close>: the block height (an \<open>int64\<close>), the recheck flag, the raw transaction
  bytes, the gas meter and the state store that the account keeper reads.
\<close>

record 's Context =
  BlockHeight :: "64 word"
  IsReCheckTx :: bool
  TxBytes :: "byte list"
  GasMeter :: GasMeter
  MultiStore :: 's

text \<open>\<open>sdkCtx.GasMeter().ConsumeGas(amount, descriptor)\<close>.\<close>

definition consumeGas :: "'s Context \<Rightarrow> Gas \<Rightarrow> string \<Rightarrow> 's Context \<times> panic option" where
  "consumeGas ctx amount descriptor =
     (case ConsumeGas (GasMeter ctx) amount descriptor of
        (g', p) \<Rightarrow> (ctx\<lparr>GasMeter := g'\<rparr>, p))"

text \<open>
  Modelled from the spec: the \<open>AccountKeeper\<close> interface is declared outside this file;
  "getParams(state) \<rightarrow> ChainParameters; getAccount(state, address) \<rightarrow> Account | absent".
  Both read the state store of the context they are given.
\<close>

record 's AccountKeeper =
  GetParams :: "'s \<Rightarrow> Params"
  GetAccount :: "'s \<Rightarrow> AccAddress \<Rightarrow> Account option"

text \<open>
  The package-level values that the file uses and that are defined outside it: the
  placeholder public key and signature of simulation, and the legacy Amino codec, whose
  \<open>MustMarshal\<close> panics when it cannot serialise.
\<close>

record Globals =
  simSecp256k1Pubkey :: PubKey
  simSecp256k1Sig :: "byte list"
  legacy_Cdc_MustMarshal :: "StdSignature \<Rightarrow> panic + byte list"

text \<open>
  The requests and responses of the three modes are declared outside this file (the ABCI
  types and those of \<open>types/tx\<close>). The stages pass the request on unread and build only
  the zero value of a response, so a few of the fields stand for each of them.
\<close>

datatype CheckTxType = CheckTxType_New | CheckTxType_Recheck

record RequestCheckTx =
  CheckTx_Tx :: "byte list"
  CheckTx_Type :: CheckTxType

record ResponseCheckTx =
  CheckTx_Code :: "32 word"
  CheckTx_Data :: "byte list"
  CheckTx_Log :: string
  CheckTx_GasWanted :: "64 word"
  CheckTx_GasUsed :: "64 word"

record RequestDeliverTx =
  DeliverTx_Tx :: "byte list"

record ResponseDeliverTx =
  DeliverTx_Code :: "32 word"
  DeliverTx_Data :: "byte list"
  DeliverTx_Log :: string
  DeliverTx_GasWanted :: "64 word"
  DeliverTx_GasUsed :: "64 word"

record RequestSimulateTx =
  SimulateTx_TxBytes :: "byte list"

record ResponseSimulateTx =
  SimulateTx_GasWanted :: "64 word"
  SimulateTx_GasUsed :: "64 word"
  SimulateTx_Result :: "byte list option"

definition ResponseCheckTx_zero :: ResponseCheckTx where
  "ResponseCheckTx_zero =
     \<lparr>CheckTx_Code = 0, CheckTx_Data = [], CheckTx_Log = [], CheckTx_GasWanted = 0,
      CheckTx_GasUsed = 0\<rparr>"

definition ResponseDeliverTx_zero :: ResponseDeliverTx where
  "ResponseDeliverTx_zero =
     \<lparr>DeliverTx_Code = 0, DeliverTx_Data = [], DeliverTx_Log = [], DeliverTx_GasWanted = 0,
      DeliverTx_GasUsed = 0\<rparr>"

definition ResponseSimulateTx_zero :: ResponseSimulateTx where
  "ResponseSimulateTx_zero =
     \<lparr>SimulateTx_GasWanted = 0, SimulateTx_GasUsed = 0, SimulateTx_Result = None\<rparr>"

text \<open>What a handler call ends with, and \<open>tx.Handler\<close> with its three methods.\<close>

datatype 'r outcome = Returned 'r "error option" | Panicked panic

type_synonym ('s, 'r) result = "'r outcome \<times> 's Context"

record 's Handler =
  CheckTx :: "'s Context \<Rightarrow> Tx \<Rightarrow> RequestCheckTx \<Rightarrow> ('s, ResponseCheckTx) result"
  DeliverTx :: "'s Context \<Rightarrow> Tx \<Rightarrow> RequestDeliverTx \<Rightarrow> ('s, ResponseDeliverTx) result"
  SimulateTx :: "'s Context \<Rightarrow> Tx \<Rightarrow> RequestSimulateTx \<Rightarrow> ('s, ResponseSimulateTx) result"

type_synonym 's Middleware = "'s Handler \<Rightarrow> 's Handler"

subsection \<open>validateBasicMiddleware\<close>

definition validateBasicMiddleware_CheckTx ::
  "'s Handler \<Rightarrow> 's Context \<Rightarrow> Tx \<Rightarrow> RequestCheckTx \<Rightarrow> ('s, ResponseCheckTx) result" where
  "validateBasicMiddleware_CheckTx next ctx tx req =
     (if IsReCheckTx ctx then CheckTx next ctx tx req
      else case ValidateBasic tx of
             Some err \<Rightarrow> (Returned ResponseCheckTx_zero (Some err), ctx)
           | None \<Rightarrow> CheckTx next ctx tx req)"

definition validateBasicMiddleware_DeliverTx ::
  "'s Handler \<Rightarrow> 's Context \<Rightarrow> Tx \<Rightarrow> RequestDeliverTx \<Rightarrow> ('s, ResponseDeliverTx) result" where
  "validateBasicMiddleware_DeliverTx next ctx tx req =
     (case ValidateBasic tx of
        Some err \<Rightarrow> (Returned ResponseDeliverTx_zero (Some err), ctx)
      | None \<Rightarrow> DeliverTx next ctx tx req)"

definition validateBasicMiddleware_SimulateTx ::
  "'s Handler \<Rightarrow> 's Context \<Rightarrow> Tx \<Rightarrow> RequestSimulateTx \<Rightarrow> ('s, ResponseSimulateTx) result" where
  "validateBasicMiddleware_SimulateTx next ctx sdkTx req =
     (case ValidateBasic sdkTx of
        Some err \<Rightarrow> (Returned ResponseSimulateTx_zero (Some err), ctx)
      | None \<Rightarrow> SimulateTx next ctx sdkTx req)"

definition ValidateBasicMiddleware :: "'s Middleware" where
  "ValidateBasicMiddleware txh =
     \<lparr>CheckTx = validateBasicMiddleware_CheckTx txh,
      DeliverTx = validateBasicMiddleware_DeliverTx txh,
      SimulateTx = validateBasicMiddleware_SimulateTx txh\<rparr>"

subsection \<open>txTimeoutHeightMiddleware\<close>

definition checkTimeout :: "'s Context \<Rightarrow> Tx \<Rightarrow> error option" where
  "checkTimeout ctx tx =
     (case asTxWithTimeoutHeight tx of
        None \<Rightarrow> Some (Wrap ErrTxDecode ''expected tx to implement TxWithTimeoutHeight'')
      | Some timeoutHeight \<Rightarrow>
          if timeoutHeight > 0 \<and> BlockHeight ctx > timeoutHeight
          then Some (Wrapf ErrTxTimeoutHeight ''block height: %d, timeout height: %d''
                      [sint (BlockHeight ctx), uint timeoutHeight])
          else None)"

definition txTimeoutHeightMiddleware_CheckTx ::
  "'s Handler \<Rightarrow> 's Context \<Rightarrow> Tx \<Rightarrow> RequestCheckTx \<Rightarrow> ('s, ResponseCheckTx) result" where
  "txTimeoutHeightMiddleware_CheckTx next ctx tx req =
     (case checkTimeout ctx tx of
        Some err \<Rightarrow> (Returned ResponseCheckTx_zero (Some err), ctx)
      | None \<Rightarrow> CheckTx next ctx tx req)"

definition txTimeoutHeightMiddleware_DeliverTx ::
  "'s Handler \<Rightarrow> 's Context \<Rightarrow> Tx \<Rightarrow> RequestDeliverTx \<Rightarrow> ('s, ResponseDeliverTx) result" where
  "txTimeoutHeightMiddleware_DeliverTx next ctx tx req =
     (case checkTimeout ctx tx of
        Some err \<Rightarrow> (Returned ResponseDeliverTx_zero (Some err), ctx)
      | None \<Rightarrow> DeliverTx next ctx tx req)"

definition txTimeoutHeightMiddleware_SimulateTx ::
  "'s Handler \<Rightarrow> 's Context \<Rightarrow> Tx \<Rightarrow> RequestSimulateTx \<Rightarrow> ('s, ResponseSimulateTx) result" where
  "txTimeoutHeightMiddleware_SimulateTx next ctx sdkTx req =
     (case checkTimeout ctx sdkTx of
        Some err \<Rightarrow> (Returned ResponseSimulateTx_zero (Some err), ctx)
      | None \<Rightarrow> SimulateTx next ctx sdkTx req)"

definition TxTimeoutHeightMiddleware :: "'s Middleware" where
  "TxTimeoutHeightMiddleware txh =
     \<lparr>CheckTx = txTimeoutHeightMiddleware_CheckTx txh,
      DeliverTx = txTimeoutHeightMiddleware_DeliverTx txh,
      SimulateTx = txTimeoutHeightMiddleware_SimulateTx txh\<rparr>"

subsection \<open>validateMemoMiddleware\<close>

text \<open>
  \<open>memoLength\<close> is a Go \<open>int\<close>, printed as it is; \<open>uint64(memoLength)\<close> is compared with
  the limit.
\<close>

definition checkForValidMemo :: "'s AccountKeeper \<Rightarrow> 's Context \<Rightarrow> Tx \<Rightarrow> error option" where
  "checkForValidMemo ak ctx tx =
     (case asTxWithMemo tx of
        None \<Rightarrow> Some (Wrap ErrTxDecode ''invalid transaction type'')
      | Some memo \<Rightarrow>
          let params = GetParams ak (MultiStore ctx);
              memoLength = length memo
          in if (word_of_nat memoLength :: 64 word) > MaxMemoCharacters params
             then Some (Wrapf ErrMemoTooLarge
                         ''maximum number of characters is %d but received %d characters''
                         [uint (MaxMemoCharacters params), int memoLength])
             else None)"

definition validateMemoMiddleware_CheckTx ::
  "'s AccountKeeper \<Rightarrow> 's Handler \<Rightarrow> 's Context \<Rightarrow> Tx \<Rightarrow> RequestCheckTx
     \<Rightarrow> ('s, ResponseCheckTx) result" where
  "validateMemoMiddleware_CheckTx ak next ctx tx req =
     (case checkForValidMemo ak ctx tx of
        Some err \<Rightarrow> (Returned ResponseCheckTx_zero (Some err), ctx)
      | None \<Rightarrow> CheckTx next ctx tx req)"

definition validateMemoMiddleware_DeliverTx ::
  "'s AccountKeeper \<Rightarrow> 's Handler \<Rightarrow> 's Context \<Rightarrow> Tx \<Rightarrow> RequestDeliverTx
     \<Rightarrow> ('s, ResponseDeliverTx) result" where
  "validateMemoMiddleware_DeliverTx ak next ctx tx req =
     (case checkForValidMemo ak ctx tx of
        Some err \<Rightarrow> (Returned ResponseDeliverTx_zero (Some err), ctx)
      | None \<Rightarrow> DeliverTx next ctx tx req)"

definition validateMemoMiddleware_SimulateTx ::
  "'s AccountKeeper \<Rightarrow> 's Handler \<Rightarrow> 's Context \<Rightarrow> Tx \<Rightarrow> RequestSimulateTx
     \<Rightarrow> ('s, ResponseSimulateTx) result" where
  "validateMemoMiddleware_SimulateTx ak next ctx sdkTx req =
     (case checkForValidMemo ak ctx sdkTx of
        Some err \<Rightarrow> (Returned ResponseSimulateTx_zero (Some err), ctx)
      | None \<Rightarrow> SimulateTx next ctx sdkTx req)"

definition ValidateMemoMiddleware :: "'s AccountKeeper \<Rightarrow> 's Middleware" where
  "ValidateMemoMiddleware ak = (\<lambda>txHandler.
     \<lparr>CheckTx = validateMemoMiddleware_CheckTx ak txHandler,
      DeliverTx = validateMemoMiddleware_DeliverTx ak txHandler,
      SimulateTx = validateMemoMiddleware_SimulateTx ak txHandler\<rparr>)"

subsection \<open>isIncompleteSignature\<close>

text \<open>
  The \<open>for\<close> loop over \<open>data.Signatures\<close> is \<open>isIncompleteSignature_loop\<close>: it returns
  \<open>true\<close> at the first incomplete member, and falls out of the \<open>switch\<close> to
  \<open>return false\<close> when there is none.
\<close>

fun isIncompleteSignature :: "SignatureData \<Rightarrow> bool"
  and isIncompleteSignature_loop :: "SignatureData list \<Rightarrow> bool" where
  "isIncompleteSignature NilSignatureData = True"
| "isIncompleteSignature (SingleSignatureData sig) = (length sig = 0)"
| "isIncompleteSignature (MultiSignatureData sigs) =
     (if length sigs = 0 then True else isIncompleteSignature_loop sigs)"
| "isIncompleteSignature_loop [] = False"
| "isIncompleteSignature_loop (s # rest) =
     (if isIncompleteSignature s then True else isIncompleteSignature_loop rest)"

subsection \<open>consumeTxSizeGasMiddleware\<close>

definition consumeTxSizeGasMiddleware_CheckTx ::
  "'s AccountKeeper \<Rightarrow> 's Handler \<Rightarrow> 's Context \<Rightarrow> Tx \<Rightarrow> RequestCheckTx
     \<Rightarrow> ('s, ResponseCheckTx) result" where
  "consumeTxSizeGasMiddleware_CheckTx ak next ctx tx req =
     (case asSigVerifiableTx tx of
        None \<Rightarrow> (Returned ResponseCheckTx_zero (Some (Wrap ErrTxDecode ''invalid tx type'')), ctx)
      | Some _ \<Rightarrow>
          let params = GetParams ak (MultiStore ctx)
          in (case consumeGas ctx
                     (TxSizeCostPerByte params * word_of_nat (length (TxBytes ctx))) ''txSize'' of
                (ctx', Some p) \<Rightarrow> (Panicked p, ctx')
              | (ctx', None) \<Rightarrow> CheckTx next ctx' tx req))"

definition consumeTxSizeGasMiddleware_DeliverTx ::
  "'s AccountKeeper \<Rightarrow> 's Handler \<Rightarrow> 's Context \<Rightarrow> Tx \<Rightarrow> RequestDeliverTx
     \<Rightarrow> ('s, ResponseDeliverTx) result" where
  "consumeTxSizeGasMiddleware_DeliverTx ak next ctx tx req =
     (case asSigVerifiableTx tx of
        None \<Rightarrow> (Returned ResponseDeliverTx_zero (Some (Wrap ErrTxDecode ''invalid tx type'')), ctx)
      | Some _ \<Rightarrow>
          let params = GetParams ak (MultiStore ctx)
          in (case consumeGas ctx
                     (TxSizeCostPerByte params * word_of_nat (length (TxBytes ctx))) ''txSize'' of
                (ctx', Some p) \<Rightarrow> (Panicked p, ctx')
              | (ctx', None) \<Rightarrow> DeliverTx next ctx' tx req))"

text \<open>
  The body of the loop over the signers of \<open>SimulateTx\<close>, for the signer at position \<open>i\<close>:
  the context after it, and the panic that ended it, if any. \<open>resolvePubKey\<close> is the choice
  between the account's key and the placeholder.
\<close>

definition resolvePubKey :: "Globals \<Rightarrow> Account option \<Rightarrow> PubKey" where
  "resolvePubKey G acc =
     (case acc of
        None \<Rightarrow> simSecp256k1Pubkey G
      | Some a \<Rightarrow> (case GetPubKey a of None \<Rightarrow> simSecp256k1Pubkey G | Some pk \<Rightarrow> pk))"

fun isLegacyAminoPubKey :: "PubKey \<Rightarrow> bool" where
  "isLegacyAminoPubKey (LegacyAminoPubKey _ _) = True"
| "isLegacyAminoPubKey (PlainPubKey _ _) = False"

definition simulateSigner ::
  "Globals \<Rightarrow> 's AccountKeeper \<Rightarrow> Params \<Rightarrow> SignatureV2 list \<Rightarrow> nat \<Rightarrow> AccAddress
     \<Rightarrow> 's Context \<Rightarrow> 's Context \<times> panic option" where
  "simulateSigner G ak params sigs i signer ctx =
     (if i < length sigs \<and> \<not> isIncompleteSignature (Data (sigs ! i)) then (ctx, None)
      else
        let acc = GetAccount ak (MultiStore ctx) signer;
            pubkey = resolvePubKey G acc;
            simSig = \<lparr>Std_PubKey = pubkey, Std_Signature = simSecp256k1Sig G\<rparr>
        in (case legacy_Cdc_MustMarshal G simSig of
              Inl p \<Rightarrow> (ctx, Some p)
            | Inr sigBz \<Rightarrow>
                (let cost = (word_of_nat (length sigBz + 6) :: Gas);
                     cost = (if isLegacyAminoPubKey pubkey then cost * TxSigLimit params else cost)
                 in consumeGas ctx (TxSizeCostPerByte params * cost) ''txSize'')))"

fun simulateSigners ::
  "Globals \<Rightarrow> 's AccountKeeper \<Rightarrow> Params \<Rightarrow> SignatureV2 list \<Rightarrow> nat \<Rightarrow> AccAddress list
     \<Rightarrow> 's Context \<Rightarrow> 's Context \<times> panic option" where
  "simulateSigners G ak params sigs i [] ctx = (ctx, None)"
| "simulateSigners G ak params sigs i (signer # rest) ctx =
     (case simulateSigner G ak params sigs i signer ctx of
        (ctx', Some p) \<Rightarrow> (ctx', Some p)
      | (ctx', None) \<Rightarrow> simulateSigners G ak params sigs (Suc i) rest ctx')"

text \<open>\<open>SimulateTx\<close> from \<open>GetSignaturesV2\<close> on, after the charge for the size.\<close>

definition simulateSignatures ::
  "Globals \<Rightarrow> 's AccountKeeper \<Rightarrow> 's Handler \<Rightarrow> Params \<Rightarrow> SigVerifiableTx \<Rightarrow> 's Context \<Rightarrow> Tx
     \<Rightarrow> RequestSimulateTx \<Rightarrow> ('s, ResponseSimulateTx) result" where
  "simulateSignatures G ak next params sigTx ctx sdkTx req =
     (case GetSignaturesV2 sigTx of
        Inl err \<Rightarrow> (Returned ResponseSimulateTx_zero (Some err), ctx)
      | Inr sigs \<Rightarrow>
          (case simulateSigners G ak params sigs 0 (GetSigners sigTx) ctx of
             (ctx', Some p) \<Rightarrow> (Panicked p, ctx')
           | (ctx', None) \<Rightarrow> SimulateTx next ctx' sdkTx req))"

definition consumeTxSizeGasMiddleware_SimulateTx ::
  "Globals \<Rightarrow> 's AccountKeeper \<Rightarrow> 's Handler \<Rightarrow> 's Context \<Rightarrow> Tx \<Rightarrow> RequestSimulateTx
     \<Rightarrow> ('s, ResponseSimulateTx) result" where
  "consumeTxSizeGasMiddleware_SimulateTx G ak next ctx sdkTx req =
     (case asSigVerifiableTx sdkTx of
        None \<Rightarrow>
          (Returned ResponseSimulateTx_zero (Some (Wrap ErrTxDecode ''invalid tx type'')), ctx)
      | Some sigTx \<Rightarrow>
          let params = GetParams ak (MultiStore ctx)
          in (case consumeGas ctx
                     (TxSizeCostPerByte params * word_of_nat (length (TxBytes ctx))) ''txSize'' of
                (ctx', Some p) \<Rightarrow> (Panicked p, ctx')
              | (ctx', None) \<Rightarrow> simulateSignatures G ak next params sigTx ctx' sdkTx req))"

definition ConsumeTxSizeGasMiddleware :: "Globals \<Rightarrow> 's AccountKeeper \<Rightarrow> 's Middleware" where
  "ConsumeTxSizeGasMiddleware G ak = (\<lambda>txHandler.
     \<lparr>CheckTx = consumeTxSizeGasMiddleware_CheckTx ak txHandler,
      DeliverTx = consumeTxSizeGasMiddleware_DeliverTx ak txHandler,
      SimulateTx = consumeTxSizeGasMiddleware_SimulateTx G ak txHandler\<rparr>)"

subsection \<open>Quantities that the properties below speak of\<close>

text \<open>
  The number of characters of a memo that is well-formed UTF-8: the bytes that are not
  continuation bytes (\<open>10xxxxxx\<close>). The code never computes it; it is what C10 compares
  the byte length with.
\<close>

definition utf8CharacterCount :: "string \<Rightarrow> nat" where
  "utf8CharacterCount s =
     length (filter (\<lambda>c. \<not> (128 \<le> (of_char c :: nat) \<and> (of_char c :: nat) < 192)) s)"

text \<open>
  The cost of C1 for a signer whose signature is absent or incomplete, in the words of the
  specification: the serialised size plus 6, multiplied by \<open>txSigLimit\<close> when the resolved
  key is a legacy multi-signature key. \<open>signerCharges\<close> is what the specification has the
  stage charge for the signer at position \<open>i\<close>, and \<open>signersCharges\<close> for the signers from
  position \<open>i\<close> on.
\<close>

definition signatureCost :: "Params \<Rightarrow> PubKey \<Rightarrow> nat \<Rightarrow> Gas" where
  "signatureCost params pk serializedSize =
     (if isLegacyAminoPubKey pk then word_of_nat (serializedSize + 6) * TxSigLimit params
      else word_of_nat (serializedSize + 6))"

definition signerCharges ::
  "Globals \<Rightarrow> 's AccountKeeper \<Rightarrow> Params \<Rightarrow> 's \<Rightarrow> SignatureV2 list \<Rightarrow> nat \<Rightarrow> AccAddress
     \<Rightarrow> (Gas \<times> string) list" where
  "signerCharges G ak params store sigs i signer =
     (if i < length sigs \<and> \<not> isIncompleteSignature (Data (sigs ! i)) then []
      else
        let pk = (case GetAccount ak store signer of
                    None \<Rightarrow> simSecp256k1Pubkey G
                  | Some acc \<Rightarrow> (case GetPubKey acc of None \<Rightarrow> simSecp256k1Pubkey G | Some k \<Rightarrow> k))
        in (case legacy_Cdc_MustMarshal G \<lparr>Std_PubKey = pk, Std_Signature = simSecp256k1Sig G\<rparr> of
              Inl _ \<Rightarrow> []
            | Inr sigBz \<Rightarrow>
                [(TxSizeCostPerByte params * signatureCost params pk (length sigBz), ''txSize'')]))"

fun signersCharges ::
  "Globals \<Rightarrow> 's AccountKeeper \<Rightarrow> Params \<Rightarrow> 's \<Rightarrow> SignatureV2 list \<Rightarrow> nat \<Rightarrow> AccAddress list
     \<Rightarrow> (Gas \<times> string) list" where
  "signersCharges G ak params store sigs i [] = []"
| "signersCharges G ak params store sigs i (signer # rest) =
     signerCharges G ak params store sigs i signer
       @ signersCharges G ak params store sigs (Suc i) rest"

subsection \<open>Concrete inputs\<close>

text \<open>
  A state store that holds the parameters and the accounts, with the keeper that reads
  them; a terminal handler that charges one unit of gas, so that a call that reaches it
  leaves a trace on the meter; transactions and contexts on which the theorems are
  evaluated. The example codec writes the bytes of a plain key followed by the signature.
\<close>

type_synonym Store = "Params \<times> (AccAddress \<Rightarrow> Account option)"

definition storeKeeper :: "Store AccountKeeper" where
  "storeKeeper = \<lparr>GetParams = fst, GetAccount = snd\<rparr>"

definition exampleParams :: Params where
  "exampleParams = \<lparr>MaxMemoCharacters = 3, TxSigLimit = 7, TxSizeCostPerByte = 10\<rparr>"

definition exampleCtx :: "64 word \<Rightarrow> bool \<Rightarrow> Store Context" where
  "exampleCtx height recheck =
     \<lparr>BlockHeight = height, IsReCheckTx = recheck, TxBytes = [1, 2, 3, 4, 5],
      GasMeter = \<lparr>gasLimit = 100000, gasConsumed = 0, gasCharges = []\<rparr>,
      MultiStore = (exampleParams, \<lambda>_. None)\<rparr>"

definition terminalHandler :: "'s Handler" where
  "terminalHandler =
     \<lparr>CheckTx = (\<lambda>ctx tx req. (Returned ResponseCheckTx_zero None, fst (consumeGas ctx 1 ''run''))),
      DeliverTx = (\<lambda>ctx tx req. (Returned ResponseDeliverTx_zero None, fst (consumeGas ctx 1 ''run''))),
      SimulateTx = (\<lambda>ctx tx req. (Returned ResponseSimulateTx_zero None, fst (consumeGas ctx 1 ''run'')))\<rparr>"

definition exampleTx :: Tx where
  "exampleTx =
     \<lparr>ValidateBasic = Some (OtherError ''no messages''),
      asTxWithTimeoutHeight = Some 100,
      asTxWithMemo = Some [CHR 0xC3, CHR 0xA9, CHR 0xC3, CHR 0xA9],
      asSigVerifiableTx = Some \<lparr>GetSigners = [], GetSignaturesV2 = Inr []\<rparr>\<rparr>"

definition bareTx :: Tx where
  "bareTx =
     \<lparr>ValidateBasic = None, asTxWithTimeoutHeight = None, asTxWithMemo = None,
      asSigVerifiableTx = None\<rparr>"

fun keyBytes :: "PubKey \<Rightarrow> byte list" where
  "keyBytes (PlainPubKey name key) = key"
| "keyBytes (LegacyAminoPubKey threshold keys) = []"

definition exampleGlobals :: Globals where
  "exampleGlobals =
     \<lparr>simSecp256k1Pubkey = PlainPubKey ''secp256k1'' (replicate 33 3),
      simSecp256k1Sig = replicate 64 0,
      legacy_Cdc_MustMarshal = (\<lambda>s. Inr (keyBytes (Std_PubKey s) @ Std_Signature s))\<rparr>"

definition exampleAccounts :: "AccAddress \<Rightarrow> Account option" where
  "exampleAccounts addr =
     (if addr = [1] then Some \<lparr>GetAddress = [1], GetPubKey = None\<rparr>
      else if addr = [2] then
        Some \<lparr>GetAddress = [2], GetPubKey = Some (PlainPubKey ''secp256k1'' [1, 2, 3, 4, 5, 6])\<rparr>
      else if addr = [3] then
        Some \<lparr>GetAddress = [3],
              GetPubKey = Some (LegacyAminoPubKey 2
                [PlainPubKey ''secp256k1'' [1], PlainPubKey ''secp256k1'' [2]])\<rparr>
      else None)"

definition simulateCtx :: "Store Context" where
  "simulateCtx =
     \<lparr>BlockHeight = 5, IsReCheckTx = False, TxBytes = [1, 2, 3, 4, 5],
      GasMeter = \<lparr>gasLimit = 100000, gasConsumed = 0, gasCharges = []\<rparr>,
      MultiStore = (exampleParams, exampleAccounts)\<rparr>"

definition simulateTx :: Tx where
  "simulateTx =
     \<lparr>ValidateBasic = None, asTxWithTimeoutHeight = Some 0, asTxWithMemo = Some [],
      asSigVerifiableTx = Some
        \<lparr>GetSigners = [[9], [2], [3], [8]],
         GetSignaturesV2 =
           Inr [\<lparr>PubKey = None, Data = SingleSignatureData [7, 7], Sequence = 0\<rparr>]\<rparr>\<rparr>"

definition meteredCtx :: "nat \<Rightarrow> (Gas \<times> string) list \<Rightarrow> Store Context" where
  "meteredCtx used charges =
     simulateCtx\<lparr>GasMeter := \<lparr>gasLimit = 100000, gasConsumed = used, gasCharges = charges\<rparr>\<rparr>"

definition exampleSigs :: "SignatureV2 list" where
  "exampleSigs = [\<lparr>PubKey = None, Data = SingleSignatureData [7, 7], Sequence = 0\<rparr>]"

text \<open>A context of two transaction bytes whose store holds the given parameters.\<close>

definition overflowCtx :: "Params \<Rightarrow> Store Context" where
  "overflowCtx params =
     \<lparr>BlockHeight = 5, IsReCheckTx = False, TxBytes = [1, 2],
      GasMeter = \<lparr>gasLimit = 100000, gasConsumed = 0, gasCharges = []\<rparr>,
      MultiStore = (params, exampleAccounts)\<rparr>"

subsection \<open>Properties of isIncompleteSignature\<close>

lemma isIncompleteSignature_loop_iff:
  "isIncompleteSignature_loop sigs = (\<exists>s \<in> set sigs. isIncompleteSignature s)"
  by (induction sigs) auto

text \<open>
  C6. A signature datum is incomplete if and only if it is nil, or a single signature with
  no bytes, or a multi-signature with no members, or a multi-signature with at least one
  incomplete member. Every other single or multi-signature is complete.
\<close>

theorem isIncompleteSignature_characterisation:
  "isIncompleteSignature d \<longleftrightarrow>
     d = NilSignatureData
   \<or> d = SingleSignatureData []
   \<or> d = MultiSignatureData []
   \<or> (\<exists>sigs. d = MultiSignatureData sigs \<and> (\<exists>s \<in> set sigs. isIncompleteSignature s))"
  by (cases d) (auto simp: isIncompleteSignature_loop_iff)

theorem isIncompleteSignature_characterisation_witness:
  "isIncompleteSignature
     (MultiSignatureData [SingleSignatureData [1, 2], MultiSignatureData [NilSignatureData]])
   \<and> \<not> isIncompleteSignature
     (MultiSignatureData [SingleSignatureData [1, 2], MultiSignatureData [SingleSignatureData [7]]])"
  using isIncompleteSignature_characterisation
    [of "MultiSignatureData [SingleSignatureData [1, 2], MultiSignatureData [NilSignatureData]]"]
    isIncompleteSignature_characterisation
    [of "MultiSignatureData [SingleSignatureData [1, 2], MultiSignatureData [SingleSignatureData [7]]]"]
  by simp

subsection \<open>Machine integers\<close>

text \<open>An \<open>int64\<close> read from its bits, and the sizes and products that fit 64 bits.\<close>

lemma sint_uint_cases64:
  fixes b :: "64 word"
  shows "sint b = (if uint b < 2 ^ 63 then uint b else uint b - 2 ^ 64)"
proof (cases "uint b < 2 ^ 63")
  case True
  moreover have "- (2 ^ 63) \<le> uint b" by (rule order_trans [of _ 0]) simp_all
  ultimately have "signed_take_bit 63 (uint b) = uint b"
    by (simp add: signed_take_bit_int_eq_self)
  with True show ?thesis by (simp add: sint_uint)
next
  case False
  have lo: "- (2 ^ 63) \<le> sint b" using sint_ge [of b] by simp
  have hi: "sint b < 2 ^ 63" using sint_lt [of b] by simp
  have u: "uint b = sint b mod 2 ^ 64"
    using uint_sint [of b] by (simp add: take_bit_eq_mod)
  have neg: "sint b < 0"
  proof (rule ccontr)
    assume "\<not> sint b < 0"
    then have "0 \<le> sint b" by simp
    with hi have "sint b mod 2 ^ 64 = sint b" by simp
    with u hi False show False by simp
  qed
  have "sint b mod 2 ^ 64 = (sint b + 2 ^ 64) mod 2 ^ 64" by simp
  also have "\<dots> = sint b + 2 ^ 64"
    using lo neg by (intro mod_pos_pos_trivial) simp_all
  finally show ?thesis using u False by simp
qed

lemma sint_nonneg_eq_uint:
  fixes b :: "64 word"
  assumes "0 \<le> sint b"
  shows "sint b = uint b"
  using assms uint_bounded [of b] by (simp add: sint_uint_cases64 split: if_splits)


lemma word_of_nat_less_iff64:
  fixes M :: "64 word"
  assumes "n < 2 ^ 64"
  shows "M < word_of_nat n \<longleftrightarrow> unat M < n"
proof -
  have "unat (word_of_nat n :: 64 word) = n"
    using assms by (simp add: unat_of_nat take_bit_nat_eq_self)
  then show ?thesis by (simp add: word_less_nat_alt)
qed


lemma unat_gas_product_mod:
  fixes r :: "64 word"
  shows "unat (r * word_of_nat n) = (unat r * n) mod 2 ^ 64"
proof -
  have "r * word_of_nat n = word_of_nat (unat r * n)" by simp
  then show ?thesis by (simp only: unat_of_nat) simp
qed

lemma unat_gas_product3_mod:
  fixes r l :: "64 word"
  shows "unat (r * (word_of_nat n * l)) = (unat r * n * unat l) mod 2 ^ 64"
proof -
  have "r * (word_of_nat n * l) = word_of_nat (unat r * n * unat l)" by simp
  then show ?thesis by (simp only: unat_of_nat) simp
qed

subsection \<open>validateBasicMiddleware: when the transaction validates itself\<close>

text \<open>
  C3. On \<open>CheckTx\<close> with the recheck flag set the stage is the next handler, whatever
  \<open>ValidateBasic\<close> would return: the validation is skipped. In every other case it is
  run: on \<open>CheckTx\<close> without the flag, and on \<open>DeliverTx\<close> and \<open>SimulateTx\<close> with or
  without it, an error of \<open>ValidateBasic\<close> is returned as it is, with the zero response and
  the context untouched, whatever the next handler is; and when \<open>ValidateBasic\<close> succeeds
  the stage is the next handler.
\<close>

theorem validateBasic_skipped_iff_recheck_CheckTx:
  "(IsReCheckTx ctx \<longrightarrow>
      CheckTx (ValidateBasicMiddleware txHandler) ctx tx rc = CheckTx txHandler ctx tx rc)
   \<and> (\<not> IsReCheckTx ctx \<and> ValidateBasic tx = Some err \<longrightarrow>
      CheckTx (ValidateBasicMiddleware txHandler) ctx tx rc
        = (Returned ResponseCheckTx_zero (Some err), ctx))
   \<and> (ValidateBasic tx = Some err \<longrightarrow>
      DeliverTx (ValidateBasicMiddleware txHandler) ctx tx rd
        = (Returned ResponseDeliverTx_zero (Some err), ctx)
      \<and> SimulateTx (ValidateBasicMiddleware txHandler) ctx tx rs
        = (Returned ResponseSimulateTx_zero (Some err), ctx))
   \<and> (ValidateBasic tx = None \<longrightarrow>
      CheckTx (ValidateBasicMiddleware txHandler) ctx tx rc = CheckTx txHandler ctx tx rc
      \<and> DeliverTx (ValidateBasicMiddleware txHandler) ctx tx rd = DeliverTx txHandler ctx tx rd
      \<and> SimulateTx (ValidateBasicMiddleware txHandler) ctx tx rs = SimulateTx txHandler ctx tx rs)"
  by (simp add: ValidateBasicMiddleware_def validateBasicMiddleware_CheckTx_def
      validateBasicMiddleware_DeliverTx_def validateBasicMiddleware_SimulateTx_def)

theorem validateBasic_skipped_iff_recheck_CheckTx_witness:
  "CheckTx (ValidateBasicMiddleware terminalHandler) (exampleCtx 5 True) exampleTx
      \<lparr>CheckTx_Tx = [], CheckTx_Type = CheckTxType_Recheck\<rparr>
     = CheckTx terminalHandler (exampleCtx 5 True) exampleTx
         \<lparr>CheckTx_Tx = [], CheckTx_Type = CheckTxType_Recheck\<rparr>
   \<and> CheckTx (ValidateBasicMiddleware terminalHandler) (exampleCtx 5 False) exampleTx
        \<lparr>CheckTx_Tx = [], CheckTx_Type = CheckTxType_New\<rparr>
     = (Returned ResponseCheckTx_zero (Some (OtherError ''no messages'')), exampleCtx 5 False)
   \<and> DeliverTx (ValidateBasicMiddleware terminalHandler) (exampleCtx 5 True) exampleTx
        \<lparr>DeliverTx_Tx = []\<rparr>
     = (Returned ResponseDeliverTx_zero (Some (OtherError ''no messages'')), exampleCtx 5 True)
   \<and> SimulateTx (ValidateBasicMiddleware terminalHandler) (exampleCtx 5 True) exampleTx
        \<lparr>SimulateTx_TxBytes = []\<rparr>
     = (Returned ResponseSimulateTx_zero (Some (OtherError ''no messages'')), exampleCtx 5 True)
   \<and> DeliverTx (ValidateBasicMiddleware terminalHandler) (exampleCtx 5 True) bareTx
        \<lparr>DeliverTx_Tx = []\<rparr>
     = DeliverTx terminalHandler (exampleCtx 5 True) bareTx \<lparr>DeliverTx_Tx = []\<rparr>"
  using validateBasic_skipped_iff_recheck_CheckTx
      [of "exampleCtx 5 True" terminalHandler exampleTx
          "\<lparr>CheckTx_Tx = [], CheckTx_Type = CheckTxType_Recheck\<rparr>" "OtherError ''no messages''"
          "\<lparr>DeliverTx_Tx = []\<rparr>" "\<lparr>SimulateTx_TxBytes = []\<rparr>"]
    validateBasic_skipped_iff_recheck_CheckTx
      [of "exampleCtx 5 False" terminalHandler exampleTx
          "\<lparr>CheckTx_Tx = [], CheckTx_Type = CheckTxType_New\<rparr>" "OtherError ''no messages''"
          "\<lparr>DeliverTx_Tx = []\<rparr>" "\<lparr>SimulateTx_TxBytes = []\<rparr>"]
    validateBasic_skipped_iff_recheck_CheckTx
      [of "exampleCtx 5 True" terminalHandler bareTx
          "\<lparr>CheckTx_Tx = [], CheckTx_Type = CheckTxType_Recheck\<rparr>" "OtherError ''no messages''"
          "\<lparr>DeliverTx_Tx = []\<rparr>" "\<lparr>SimulateTx_TxBytes = []\<rparr>"]
  by (simp add: exampleCtx_def exampleTx_def bareTx_def)

subsection \<open>txTimeoutHeightMiddleware\<close>

lemma checkTimeout_eq:
  "asTxWithTimeoutHeight tx = Some h \<Longrightarrow>
     checkTimeout ctx tx =
       (if 0 < h \<and> h < BlockHeight ctx
        then Some (Wrapf ErrTxTimeoutHeight ''block height: %d, timeout height: %d''
                    [sint (BlockHeight ctx), uint h])
        else None)"
  by (simp add: checkTimeout_def)

lemmas timeout_stage_defs =
  TxTimeoutHeightMiddleware_def txTimeoutHeightMiddleware_CheckTx_def
  txTimeoutHeightMiddleware_DeliverTx_def txTimeoutHeightMiddleware_SimulateTx_def

text \<open>
  C4, as amended. For a transaction with timeout height \<open>h\<close>, in each of the three modes
  the stage fails, with \<open>ErrTxTimeoutHeight\<close> carrying the signed block height and \<open>h\<close>,
  if and only if \<open>h > 0\<close> and the block height converted to \<open>uint64\<close> is greater than
  \<open>h\<close>; otherwise it is the next handler. For a block height that is not negative the
  condition is \<open>h > 0\<close> and \<open>b > h\<close>. In particular \<open>h = 0\<close> never fails. The recheck
  flag plays no role.
\<close>

theorem timeout_stage_fails_iff:
  assumes "asTxWithTimeoutHeight tx = Some h"
  shows "(if 0 < h \<and> h < BlockHeight ctx
          then checkTimeout ctx tx
                 = Some (Wrapf ErrTxTimeoutHeight ''block height: %d, timeout height: %d''
                          [sint (BlockHeight ctx), uint h])
          else checkTimeout ctx tx = None)
       \<and> (0 \<le> sint (BlockHeight ctx) \<longrightarrow>
            (0 < h \<and> h < BlockHeight ctx \<longleftrightarrow> 0 < uint h \<and> uint h < sint (BlockHeight ctx)))
       \<and> CheckTx (TxTimeoutHeightMiddleware txHandler) ctx tx rc
            = (case checkTimeout ctx tx of
                 Some err \<Rightarrow> (Returned ResponseCheckTx_zero (Some err), ctx)
               | None \<Rightarrow> CheckTx txHandler ctx tx rc)
       \<and> DeliverTx (TxTimeoutHeightMiddleware txHandler) ctx tx rd
            = (case checkTimeout ctx tx of
                 Some err \<Rightarrow> (Returned ResponseDeliverTx_zero (Some err), ctx)
               | None \<Rightarrow> DeliverTx txHandler ctx tx rd)
       \<and> SimulateTx (TxTimeoutHeightMiddleware txHandler) ctx tx rs
            = (case checkTimeout ctx tx of
                 Some err \<Rightarrow> (Returned ResponseSimulateTx_zero (Some err), ctx)
               | None \<Rightarrow> SimulateTx txHandler ctx tx rs)"
proof -
  have "0 \<le> sint (BlockHeight ctx) \<Longrightarrow>
          (0 < h \<and> h < BlockHeight ctx \<longleftrightarrow> 0 < uint h \<and> uint h < sint (BlockHeight ctx))"
    by (simp add: sint_nonneg_eq_uint word_less_def)
  then show ?thesis
    using assms by (simp add: checkTimeout_eq timeout_stage_defs)
qed


theorem timeout_stage_fails_iff_witness:
  "checkTimeout (exampleCtx 101 False) exampleTx
     = Some (Wrapf ErrTxTimeoutHeight ''block height: %d, timeout height: %d'' [101, 100])
   \<and> checkTimeout (exampleCtx 100 False) exampleTx = None
   \<and> DeliverTx (TxTimeoutHeightMiddleware terminalHandler) (exampleCtx 101 False) exampleTx
        \<lparr>DeliverTx_Tx = []\<rparr>
     = (Returned ResponseDeliverTx_zero
          (Some (Wrapf ErrTxTimeoutHeight ''block height: %d, timeout height: %d'' [101, 100])),
        exampleCtx 101 False)"
  using timeout_stage_fails_iff
      [of exampleTx 100 "exampleCtx 101 False" terminalHandler
          "\<lparr>CheckTx_Tx = [], CheckTx_Type = CheckTxType_New\<rparr>"
          "\<lparr>DeliverTx_Tx = []\<rparr>" "\<lparr>SimulateTx_TxBytes = []\<rparr>"]
    timeout_stage_fails_iff
      [of exampleTx 100 "exampleCtx 100 False" terminalHandler
          "\<lparr>CheckTx_Tx = [], CheckTx_Type = CheckTxType_New\<rparr>"
          "\<lparr>DeliverTx_Tx = []\<rparr>" "\<lparr>SimulateTx_TxBytes = []\<rparr>"]
  by (simp add: exampleCtx_def exampleTx_def)

text \<open>
  C4 as stated fails for a negative block height: at height \<open>-1\<close> (all bits set) and
  timeout height 1 the stage fails, although \<open>-1 > 1\<close> is false.
\<close>

theorem timeout_signed_height_counterexample:
  "checkTimeout (exampleCtx 18446744073709551615 False) (exampleTx\<lparr>asTxWithTimeoutHeight := Some 1\<rparr>)
     = Some (Wrapf ErrTxTimeoutHeight ''block height: %d, timeout height: %d'' [- 1, 1])
   \<and> \<not> (sint (BlockHeight (exampleCtx 18446744073709551615 False)) > uint (1 :: 64 word))"
  by (simp add: checkTimeout_def exampleCtx_def exampleTx_def)




subsection \<open>validateMemoMiddleware\<close>

text \<open>The length of a Go string fits an \<open>int\<close>, hence 64 bits.\<close>

lemma checkForValidMemo_eq:
  assumes "asTxWithMemo tx = Some memo" and "length memo < 2 ^ 64"
    and "MaxMemoCharacters (GetParams ak (MultiStore ctx)) = M"
  shows "checkForValidMemo ak ctx tx =
       (if unat M < length memo
        then Some (Wrapf ErrMemoTooLarge
                    ''maximum number of characters is %d but received %d characters''
                    [uint M, int (length memo)])
        else None)"
  using assms by (simp add: checkForValidMemo_def word_of_nat_less_iff64)

lemmas memo_stage_defs =
  ValidateMemoMiddleware_def validateMemoMiddleware_CheckTx_def
  validateMemoMiddleware_DeliverTx_def validateMemoMiddleware_SimulateTx_def

text \<open>
  C5. For a transaction with a memo of \<open>L\<close> bytes, and the limit \<open>M\<close> read from the
  parameters of the state of the call, in each of the three modes the stage fails with
  \<open>ErrMemoTooLarge\<close> carrying \<open>M\<close> and \<open>L\<close> if and only if \<open>L > M\<close>, leaving the context
  untouched whatever the next handler is; otherwise, and so for \<open>L = M\<close>, it is the next
  handler.
\<close>

theorem memo_stage_fails_iff:
  assumes "asTxWithMemo tx = Some memo" and "length memo < 2 ^ 64"
    and "MaxMemoCharacters (GetParams ak (MultiStore ctx)) = M"
  shows "if unat M < length memo
         then checkForValidMemo ak ctx tx
                = Some (Wrapf ErrMemoTooLarge
                         ''maximum number of characters is %d but received %d characters''
                         [uint M, int (length memo)])
            \<and> CheckTx (ValidateMemoMiddleware ak txHandler) ctx tx rc
                = (Returned ResponseCheckTx_zero (checkForValidMemo ak ctx tx), ctx)
            \<and> DeliverTx (ValidateMemoMiddleware ak txHandler) ctx tx rd
                = (Returned ResponseDeliverTx_zero (checkForValidMemo ak ctx tx), ctx)
            \<and> SimulateTx (ValidateMemoMiddleware ak txHandler) ctx tx rs
                = (Returned ResponseSimulateTx_zero (checkForValidMemo ak ctx tx), ctx)
         else checkForValidMemo ak ctx tx = None
            \<and> CheckTx (ValidateMemoMiddleware ak txHandler) ctx tx rc = CheckTx txHandler ctx tx rc
            \<and> DeliverTx (ValidateMemoMiddleware ak txHandler) ctx tx rd = DeliverTx txHandler ctx tx rd
            \<and> SimulateTx (ValidateMemoMiddleware ak txHandler) ctx tx rs = SimulateTx txHandler ctx tx rs"
  using checkForValidMemo_eq [OF assms] by (simp add: memo_stage_defs)

theorem memo_stage_fails_iff_witness:
  "checkForValidMemo storeKeeper (exampleCtx 5 False) exampleTx
     = Some (Wrapf ErrMemoTooLarge
              ''maximum number of characters is %d but received %d characters'' [3, 4])
   \<and> checkForValidMemo storeKeeper (exampleCtx 5 False)
        (exampleTx\<lparr>asTxWithMemo := Some ''abc''\<rparr>) = None
   \<and> CheckTx (ValidateMemoMiddleware storeKeeper terminalHandler) (exampleCtx 5 False)
        (exampleTx\<lparr>asTxWithMemo := Some ''abc''\<rparr>)
        \<lparr>CheckTx_Tx = [], CheckTx_Type = CheckTxType_New\<rparr>
     = CheckTx terminalHandler (exampleCtx 5 False) (exampleTx\<lparr>asTxWithMemo := Some ''abc''\<rparr>)
        \<lparr>CheckTx_Tx = [], CheckTx_Type = CheckTxType_New\<rparr>"
  using memo_stage_fails_iff
      [of exampleTx "[CHR 0xC3, CHR 0xA9, CHR 0xC3, CHR 0xA9]" storeKeeper "exampleCtx 5 False" 3
          terminalHandler "\<lparr>CheckTx_Tx = [], CheckTx_Type = CheckTxType_New\<rparr>"
          "\<lparr>DeliverTx_Tx = []\<rparr>" "\<lparr>SimulateTx_TxBytes = []\<rparr>"]
    memo_stage_fails_iff
      [of "exampleTx\<lparr>asTxWithMemo := Some ''abc''\<rparr>" "''abc''" storeKeeper "exampleCtx 5 False" 3
          terminalHandler "\<lparr>CheckTx_Tx = [], CheckTx_Type = CheckTxType_New\<rparr>"
          "\<lparr>DeliverTx_Tx = []\<rparr>" "\<lparr>SimulateTx_TxBytes = []\<rparr>"]
  by (simp add: exampleCtx_def exampleTx_def storeKeeper_def exampleParams_def)

text \<open>
  C10. The memo is measured in bytes: a memo with at most \<open>M\<close> characters and more than
  \<open>M\<close> bytes fails with \<open>ErrMemoTooLarge\<close> in each of the three modes, and the length
  carried by the error is the number of bytes, which is not the number of characters.
\<close>

theorem memo_measured_in_bytes:
  assumes "asTxWithMemo tx = Some memo" and "length memo < 2 ^ 64"
    and "MaxMemoCharacters (GetParams ak (MultiStore ctx)) = M"
    and "utf8CharacterCount memo \<le> unat M" and "unat M < length memo"
  shows "checkForValidMemo ak ctx tx
           = Some (Wrapf ErrMemoTooLarge
                    ''maximum number of characters is %d but received %d characters''
                    [uint M, int (length memo)])
       \<and> utf8CharacterCount memo < length memo
       \<and> CheckTx (ValidateMemoMiddleware ak txHandler) ctx tx rc
           = (Returned ResponseCheckTx_zero (checkForValidMemo ak ctx tx), ctx)
       \<and> DeliverTx (ValidateMemoMiddleware ak txHandler) ctx tx rd
           = (Returned ResponseDeliverTx_zero (checkForValidMemo ak ctx tx), ctx)
       \<and> SimulateTx (ValidateMemoMiddleware ak txHandler) ctx tx rs
           = (Returned ResponseSimulateTx_zero (checkForValidMemo ak ctx tx), ctx)"
  using checkForValidMemo_eq [OF assms(1-3)] assms(4,5) by (simp add: memo_stage_defs)

theorem memo_measured_in_bytes_witness:
  "utf8CharacterCount [CHR 0xC3, CHR 0xA9, CHR 0xC3, CHR 0xA9] = 2
   \<and> length [CHR 0xC3, CHR 0xA9, CHR 0xC3, CHR 0xA9] = 4
   \<and> checkForValidMemo storeKeeper (exampleCtx 5 False) exampleTx
     = Some (Wrapf ErrMemoTooLarge
              ''maximum number of characters is %d but received %d characters'' [3, 4])
   \<and> SimulateTx (ValidateMemoMiddleware storeKeeper terminalHandler) (exampleCtx 5 False)
        exampleTx \<lparr>SimulateTx_TxBytes = []\<rparr>
     = (Returned ResponseSimulateTx_zero
          (Some (Wrapf ErrMemoTooLarge
                  ''maximum number of characters is %d but received %d characters'' [3, 4])),
        exampleCtx 5 False)"
  using memo_measured_in_bytes
      [of exampleTx "[CHR 0xC3, CHR 0xA9, CHR 0xC3, CHR 0xA9]" storeKeeper "exampleCtx 5 False" 3
          terminalHandler "\<lparr>CheckTx_Tx = [], CheckTx_Type = CheckTxType_New\<rparr>"
          "\<lparr>DeliverTx_Tx = []\<rparr>" "\<lparr>SimulateTx_TxBytes = []\<rparr>"]
  by (simp add: exampleCtx_def exampleTx_def storeKeeper_def exampleParams_def
      utf8CharacterCount_def)

subsection \<open>A missing capability\<close>

lemmas gas_stage_defs =
  ConsumeTxSizeGasMiddleware_def consumeTxSizeGasMiddleware_CheckTx_def
  consumeTxSizeGasMiddleware_DeliverTx_def consumeTxSizeGasMiddleware_SimulateTx_def

text \<open>
  C7. A transaction without a timeout height makes the timeout stage return
  \<open>ErrTxDecode\<close>, one without a memo the memo stage, and one that is not
  signature-verifiable the gas stage, in each of the three modes. The result is the zero
  response with the error and the context of the call as it was, gas meter included, for
  every next handler: the next handler is not called and no gas is consumed.
\<close>

theorem missing_capability_is_DecodeError:
  "(asTxWithTimeoutHeight tx = None \<longrightarrow>
      CheckTx (TxTimeoutHeightMiddleware txHandler) ctx tx rc
        = (Returned ResponseCheckTx_zero
             (Some (Wrap ErrTxDecode ''expected tx to implement TxWithTimeoutHeight'')), ctx)
      \<and> DeliverTx (TxTimeoutHeightMiddleware txHandler) ctx tx rd
        = (Returned ResponseDeliverTx_zero
             (Some (Wrap ErrTxDecode ''expected tx to implement TxWithTimeoutHeight'')), ctx)
      \<and> SimulateTx (TxTimeoutHeightMiddleware txHandler) ctx tx rs
        = (Returned ResponseSimulateTx_zero
             (Some (Wrap ErrTxDecode ''expected tx to implement TxWithTimeoutHeight'')), ctx))
   \<and> (asTxWithMemo tx = None \<longrightarrow>
      CheckTx (ValidateMemoMiddleware ak txHandler) ctx tx rc
        = (Returned ResponseCheckTx_zero (Some (Wrap ErrTxDecode ''invalid transaction type'')), ctx)
      \<and> DeliverTx (ValidateMemoMiddleware ak txHandler) ctx tx rd
        = (Returned ResponseDeliverTx_zero (Some (Wrap ErrTxDecode ''invalid transaction type'')), ctx)
      \<and> SimulateTx (ValidateMemoMiddleware ak txHandler) ctx tx rs
        = (Returned ResponseSimulateTx_zero (Some (Wrap ErrTxDecode ''invalid transaction type'')),
           ctx))
   \<and> (asSigVerifiableTx tx = None \<longrightarrow>
      CheckTx (ConsumeTxSizeGasMiddleware G ak txHandler) ctx tx rc
        = (Returned ResponseCheckTx_zero (Some (Wrap ErrTxDecode ''invalid tx type'')), ctx)
      \<and> DeliverTx (ConsumeTxSizeGasMiddleware G ak txHandler) ctx tx rd
        = (Returned ResponseDeliverTx_zero (Some (Wrap ErrTxDecode ''invalid tx type'')), ctx)
      \<and> SimulateTx (ConsumeTxSizeGasMiddleware G ak txHandler) ctx tx rs
        = (Returned ResponseSimulateTx_zero (Some (Wrap ErrTxDecode ''invalid tx type'')), ctx))"
  by (simp add: timeout_stage_defs memo_stage_defs gas_stage_defs checkTimeout_def
      checkForValidMemo_def)

theorem missing_capability_is_DecodeError_witness:
  "CheckTx (TxTimeoutHeightMiddleware terminalHandler) (exampleCtx 5 False) bareTx
      \<lparr>CheckTx_Tx = [], CheckTx_Type = CheckTxType_New\<rparr>
     = (Returned ResponseCheckTx_zero
          (Some (Wrap ErrTxDecode ''expected tx to implement TxWithTimeoutHeight'')),
        exampleCtx 5 False)
   \<and> DeliverTx (ValidateMemoMiddleware storeKeeper terminalHandler) (exampleCtx 5 False) bareTx
        \<lparr>DeliverTx_Tx = []\<rparr>
     = (Returned ResponseDeliverTx_zero (Some (Wrap ErrTxDecode ''invalid transaction type'')),
        exampleCtx 5 False)
   \<and> SimulateTx (ConsumeTxSizeGasMiddleware exampleGlobals storeKeeper terminalHandler)
        (exampleCtx 5 False) bareTx \<lparr>SimulateTx_TxBytes = []\<rparr>
     = (Returned ResponseSimulateTx_zero (Some (Wrap ErrTxDecode ''invalid tx type'')),
        exampleCtx 5 False)
   \<and> gasCharges (GasMeter (exampleCtx 5 False)) = []"
  using missing_capability_is_DecodeError
      [of bareTx terminalHandler "exampleCtx 5 False"
          "\<lparr>CheckTx_Tx = [], CheckTx_Type = CheckTxType_New\<rparr>"
          "\<lparr>DeliverTx_Tx = []\<rparr>" "\<lparr>SimulateTx_TxBytes = []\<rparr>" storeKeeper exampleGlobals]
  by (simp add: bareTx_def exampleCtx_def)

subsection \<open>consumeTxSizeGasMiddleware: the charge for the size\<close>

lemma consumeGas_effect:
  "consumeGas ctx amount d = (ctx', p) \<Longrightarrow>
     gasCharges (GasMeter ctx') = gasCharges (GasMeter ctx) @ [(amount, d)]
     \<and> gasConsumed (GasMeter ctx') = gasConsumed (GasMeter ctx) + unat amount
     \<and> gasLimit (GasMeter ctx') = gasLimit (GasMeter ctx)
     \<and> MultiStore ctx' = MultiStore ctx \<and> TxBytes ctx' = TxBytes ctx
     \<and> BlockHeight ctx' = BlockHeight ctx \<and> IsReCheckTx ctx' = IsReCheckTx ctx
     \<and> (p = None \<longleftrightarrow> gasConsumed (GasMeter ctx') \<le> gasLimit (GasMeter ctx))
     \<and> (p \<noteq> None \<longrightarrow> p = Some (ErrorOutOfGas d))"
  by (auto simp: consumeGas_def ConsumeGas_def Let_def split: prod.splits if_splits)





subsection \<open>consumeTxSizeGasMiddleware: the signatures of a simulation\<close>

lemma simulateSigner_complete:
  "i < length sigs \<Longrightarrow> \<not> isIncompleteSignature (Data (sigs ! i)) \<Longrightarrow>
     simulateSigner G ak params sigs i signer ctx = (ctx, None)"
  by (simp add: simulateSigner_def)

lemma simulateSigner_incomplete:
  assumes "\<not> (i < length sigs \<and> \<not> isIncompleteSignature (Data (sigs ! i)))"
    and "legacy_Cdc_MustMarshal G
           \<lparr>Std_PubKey = resolvePubKey G (GetAccount ak (MultiStore ctx) signer),
            Std_Signature = simSecp256k1Sig G\<rparr> = Inr sigBz"
  shows "simulateSigner G ak params sigs i signer ctx =
           consumeGas ctx
             (TxSizeCostPerByte params
                * signatureCost params (resolvePubKey G (GetAccount ak (MultiStore ctx) signer))
                    (length sigBz)) ''txSize''"
  using assms by (auto simp add: simulateSigner_def signatureCost_def Let_def)

lemma simulateSigner_charges:
  assumes "simulateSigner G ak params sigs i signer ctx = (ctx', None)"
  shows "gasCharges (GasMeter ctx')
           = gasCharges (GasMeter ctx) @ signerCharges G ak params (MultiStore ctx) sigs i signer
       \<and> MultiStore ctx' = MultiStore ctx"
proof (cases "i < length sigs \<and> \<not> isIncompleteSignature (Data (sigs ! i))")
  case True
  with assms show ?thesis by (simp add: simulateSigner_def signerCharges_def)
next
  case False
  show ?thesis
  proof (cases "legacy_Cdc_MustMarshal G
           \<lparr>Std_PubKey = resolvePubKey G (GetAccount ak (MultiStore ctx) signer),
            Std_Signature = simSecp256k1Sig G\<rparr>")
    case (Inl p)
    with False assms show ?thesis by (auto simp add: simulateSigner_def Let_def)
  next
    case (Inr sigBz)
    from simulateSigner_incomplete [OF False Inr, of params] assms
    have "consumeGas ctx
             (TxSizeCostPerByte params
                * signatureCost params (resolvePubKey G (GetAccount ak (MultiStore ctx) signer))
                    (length sigBz)) ''txSize'' = (ctx', None)" by simp
    from consumeGas_effect [OF this] False Inr show ?thesis
      by (auto simp add: signerCharges_def resolvePubKey_def Let_def)
  qed
qed

lemma simulateSigners_charges:
  "simulateSigners G ak params sigs i signers ctx = (ctx', None) \<Longrightarrow>
     gasCharges (GasMeter ctx')
       = gasCharges (GasMeter ctx) @ signersCharges G ak params (MultiStore ctx) sigs i signers
     \<and> MultiStore ctx' = MultiStore ctx"
proof (induction signers arbitrary: i ctx)
  case Nil
  then show ?case by simp
next
  case (Cons signer rest)
  obtain ctx1 p1 where step: "simulateSigner G ak params sigs i signer ctx = (ctx1, p1)"
    by (cases "simulateSigner G ak params sigs i signer ctx")
  with Cons.prems have p1: "p1 = None"
    by (cases p1) simp_all
  with step Cons.prems have rest: "simulateSigners G ak params sigs (Suc i) rest ctx1 = (ctx', None)"
    by simp
  from step p1 have s1: "gasCharges (GasMeter ctx1)
           = gasCharges (GasMeter ctx) @ signerCharges G ak params (MultiStore ctx) sigs i signer"
    and st: "MultiStore ctx1 = MultiStore ctx"
    using simulateSigner_charges [of G ak params sigs i signer ctx ctx1] by simp_all
  from Cons.IH [OF rest] s1 st show ?case by simp
qed

lemma resolvePubKey_eq:
  "resolvePubKey G acc =
     (if acc = None \<or> GetPubKey (the acc) = None then simSecp256k1Pubkey G
      else the (GetPubKey (the acc)))"
  by (simp add: resolvePubKey_def split: option.splits)

text \<open>
  C1, as amended. In \<open>SimulateTx\<close>, for the signer at position \<open>i\<close>: when there is a
  signature at position \<open>i\<close> and it is complete, nothing is charged. Otherwise, when the
  placeholder signature with the resolved key serialises to \<open>sigBz\<close>, the stage makes one
  charge of \<open>TxSizeCostPerByte * cost\<close> with the descriptor \<open>txSize\<close>, where \<open>cost\<close> is
  the length of \<open>sigBz\<close> plus 6, multiplied by \<open>TxSigLimit\<close> when the resolved key is a
  legacy multi-signature key, and the products are \<open>uint64\<close> products: the amount is the
  product of the numbers modulo \<open>2^64\<close>, which is the product itself when that fits 64
  bits. The resolved key is the placeholder key when the account is absent or has no
  public key, and the account's key otherwise. When the call does not panic, the next
  handler is called on a context whose charges are those before the call, the charge for
  the size, and the charges of the signers in order.
\<close>

theorem simulate_signature_gas:
  assumes "asSigVerifiableTx tx = Some sigTx"
    and "GetSignaturesV2 sigTx = Inr sigs"
    and "GetParams ak (MultiStore ctx) = params"
  shows "(i < length sigs \<and> \<not> isIncompleteSignature (Data (sigs ! i)) \<longrightarrow>
            simulateSigner G ak params sigs i signer c = (c, None))
       \<and> (\<not> (i < length sigs \<and> \<not> isIncompleteSignature (Data (sigs ! i)))
            \<and> legacy_Cdc_MustMarshal G
                 \<lparr>Std_PubKey = resolvePubKey G (GetAccount ak (MultiStore c) signer),
                  Std_Signature = simSecp256k1Sig G\<rparr> = Inr sigBz \<longrightarrow>
            simulateSigner G ak params sigs i signer c
              = consumeGas c
                  (TxSizeCostPerByte params
                     * (if isLegacyAminoPubKey
                             (resolvePubKey G (GetAccount ak (MultiStore c) signer))
                        then word_of_nat (length sigBz + 6) * TxSigLimit params
                        else word_of_nat (length sigBz + 6)))
                  ''txSize'')
       \<and> unat (TxSizeCostPerByte params
                 * (if isLegacyAminoPubKey pk
                    then word_of_nat (serializedSize + 6) * TxSigLimit params
                    else word_of_nat (serializedSize + 6)))
           = (unat (TxSizeCostPerByte params) * (serializedSize + 6)
                * (if isLegacyAminoPubKey pk then unat (TxSigLimit params) else 1)) mod 2 ^ 64
       \<and> (unat (TxSizeCostPerByte params) * (serializedSize + 6)
                * (if isLegacyAminoPubKey pk then unat (TxSigLimit params) else 1) < 2 ^ 64 \<longrightarrow>
            unat (TxSizeCostPerByte params
                    * (if isLegacyAminoPubKey pk
                       then word_of_nat (serializedSize + 6) * TxSigLimit params
                       else word_of_nat (serializedSize + 6)))
              = unat (TxSizeCostPerByte params) * (serializedSize + 6)
                  * (if isLegacyAminoPubKey pk then unat (TxSigLimit params) else 1))
       \<and> resolvePubKey G acc
           = (if acc = None \<or> GetPubKey (the acc) = None then simSecp256k1Pubkey G
              else the (GetPubKey (the acc)))
       \<and> (consumeGas ctx (TxSizeCostPerByte params * word_of_nat (length (TxBytes ctx)))
               ''txSize'' = (ctxBase, None)
            \<and> simulateSigners G ak params sigs 0 (GetSigners sigTx) ctxBase = (ctxSigs, None) \<longrightarrow>
            SimulateTx (ConsumeTxSizeGasMiddleware G ak txHandler) ctx tx rs
              = SimulateTx txHandler ctxSigs tx rs
            \<and> gasCharges (GasMeter ctxSigs)
              = gasCharges (GasMeter ctx)
                  @ (TxSizeCostPerByte params * word_of_nat (length (TxBytes ctx)), ''txSize'')
                  # signersCharges G ak params (MultiStore ctx) sigs 0 (GetSigners sigTx))"
proof -
  have complete: "i < length sigs \<and> \<not> isIncompleteSignature (Data (sigs ! i)) \<longrightarrow>
            simulateSigner G ak params sigs i signer c = (c, None)"
    by (simp add: simulateSigner_complete)
  have incomplete: "\<not> (i < length sigs \<and> \<not> isIncompleteSignature (Data (sigs ! i)))
            \<and> legacy_Cdc_MustMarshal G
                 \<lparr>Std_PubKey = resolvePubKey G (GetAccount ak (MultiStore c) signer),
                  Std_Signature = simSecp256k1Sig G\<rparr> = Inr sigBz \<longrightarrow>
            simulateSigner G ak params sigs i signer c
              = consumeGas c
                  (TxSizeCostPerByte params
                     * (if isLegacyAminoPubKey
                             (resolvePubKey G (GetAccount ak (MultiStore c) signer))
                        then word_of_nat (length sigBz + 6) * TxSigLimit params
                        else word_of_nat (length sigBz + 6)))
                  ''txSize''"
    using simulateSigner_incomplete [of i sigs G ak c signer sigBz params]
    by (simp only: signatureCost_def) blast
  have whole: "SimulateTx (ConsumeTxSizeGasMiddleware G ak txHandler) ctx tx rs
              = SimulateTx txHandler ctxSigs tx rs
            \<and> gasCharges (GasMeter ctxSigs)
              = gasCharges (GasMeter ctx)
                  @ (TxSizeCostPerByte params * word_of_nat (length (TxBytes ctx)), ''txSize'')
                  # signersCharges G ak params (MultiStore ctx) sigs 0 (GetSigners sigTx)"
    if base: "consumeGas ctx (TxSizeCostPerByte params * word_of_nat (length (TxBytes ctx)))
               ''txSize'' = (ctxBase, None)"
      and loop: "simulateSigners G ak params sigs 0 (GetSigners sigTx) ctxBase = (ctxSigs, None)"
  proof -
    from assms base loop
    have "SimulateTx (ConsumeTxSizeGasMiddleware G ak txHandler) ctx tx rs
              = SimulateTx txHandler ctxSigs tx rs"
      by (simp add: gas_stage_defs simulateSignatures_def)
    moreover from consumeGas_effect [OF base] simulateSigners_charges [OF loop]
    have "gasCharges (GasMeter ctxSigs)
              = gasCharges (GasMeter ctx)
                  @ (TxSizeCostPerByte params * word_of_nat (length (TxBytes ctx)), ''txSize'')
                  # signersCharges G ak params (MultiStore ctx) sigs 0 (GetSigners sigTx)"
      by simp
    ultimately show ?thesis by simp
  qed
  have modulo: "unat (TxSizeCostPerByte params
                 * (if isLegacyAminoPubKey pk
                    then word_of_nat (serializedSize + 6) * TxSigLimit params
                    else word_of_nat (serializedSize + 6)))
           = (unat (TxSizeCostPerByte params) * (serializedSize + 6)
                * (if isLegacyAminoPubKey pk then unat (TxSigLimit params) else 1)) mod 2 ^ 64"
    using unat_gas_product_mod [of "TxSizeCostPerByte params" "serializedSize + 6"]
      unat_gas_product3_mod [of "TxSizeCostPerByte params" "serializedSize + 6" "TxSigLimit params"]
    by (cases "isLegacyAminoPubKey pk") simp_all
  have exact: "unat (TxSizeCostPerByte params) * (serializedSize + 6)
                * (if isLegacyAminoPubKey pk then unat (TxSigLimit params) else 1) < 2 ^ 64 \<longrightarrow>
            unat (TxSizeCostPerByte params
                    * (if isLegacyAminoPubKey pk
                       then word_of_nat (serializedSize + 6) * TxSigLimit params
                       else word_of_nat (serializedSize + 6)))
              = unat (TxSizeCostPerByte params) * (serializedSize + 6)
                  * (if isLegacyAminoPubKey pk then unat (TxSigLimit params) else 1)"
    by (simp only: modulo) simp
  from complete incomplete modulo exact whole show ?thesis
    by (simp only: resolvePubKey_eq [symmetric]) blast
qed

lemma example_marshal_length:
  "legacy_Cdc_MustMarshal exampleGlobals \<lparr>Std_PubKey = pk, Std_Signature = simSecp256k1Sig exampleGlobals\<rparr>
     = Inr (keyBytes pk @ replicate 64 0)"
  by (simp add: exampleGlobals_def)

lemma example_signer0:
  "simulateSigner exampleGlobals storeKeeper exampleParams exampleSigs 0 [9] (meteredCtx u cs)
     = (meteredCtx u cs, None)"
  by (simp add: simulateSigner_def exampleSigs_def)

lemma example_signer1:
  "simulateSigner exampleGlobals storeKeeper exampleParams exampleSigs (Suc 0) [2] (meteredCtx 50 cs)
     = (meteredCtx 810 (cs @ [(760, ''txSize'')]), None)"
  by (simp add: simulateSigner_def exampleSigs_def example_marshal_length meteredCtx_def
      simulateCtx_def storeKeeper_def exampleAccounts_def resolvePubKey_def exampleParams_def
      consumeGas_def ConsumeGas_def)

lemmas example_signer_defs =
  simulateSigner_def exampleSigs_def example_marshal_length meteredCtx_def
  simulateCtx_def storeKeeper_def exampleAccounts_def resolvePubKey_def exampleParams_def
  consumeGas_def ConsumeGas_def

lemma example_signer2:
  "simulateSigner exampleGlobals storeKeeper exampleParams exampleSigs (Suc (Suc 0)) [3] (meteredCtx 810 cs)
     = (meteredCtx 5710 (cs @ [(4900, ''txSize'')]), None)"
  by (simp add: example_signer_defs)

lemma example_placeholder:
  "simSecp256k1Pubkey exampleGlobals = PlainPubKey ''secp256k1'' (replicate 33 3)"
  by (simp add: exampleGlobals_def)

lemma example_signer3:
  "simulateSigner exampleGlobals storeKeeper exampleParams exampleSigs (Suc (Suc (Suc 0))) [8] (meteredCtx 5710 cs)
     = (meteredCtx 6740 (cs @ [(1030, ''txSize'')]), None)"
  by (simp add: example_signer_defs example_placeholder)

lemma example_loop:
  "simulateSigners exampleGlobals storeKeeper exampleParams exampleSigs 0 [[9], [2], [3], [8]]
       (meteredCtx 50 [(50, ''txSize'')])
     = (meteredCtx 6740
          [(50, ''txSize''), (760, ''txSize''), (4900, ''txSize''), (1030, ''txSize'')], None)"
  by (simp add: example_signer0 example_signer1 example_signer2 example_signer3)

lemma example_base:
  "consumeGas simulateCtx 50 ''txSize'' = (meteredCtx 50 [(50, ''txSize'')], None)"
  by (simp add: consumeGas_def ConsumeGas_def meteredCtx_def simulateCtx_def)

theorem simulate_signature_gas_witness:
  "simulateSigner exampleGlobals storeKeeper exampleParams exampleSigs 0 [9] simulateCtx
     = (simulateCtx, None)
   \<and> simulateSigner exampleGlobals storeKeeper exampleParams exampleSigs 1 [2]
        (meteredCtx 50 [(50, ''txSize'')])
     = consumeGas (meteredCtx 50 [(50, ''txSize'')]) (10 * (70 + 6)) ''txSize''
   \<and> gasCharges (GasMeter (snd (SimulateTx
       (ConsumeTxSizeGasMiddleware exampleGlobals storeKeeper terminalHandler)
       simulateCtx simulateTx \<lparr>SimulateTx_TxBytes = []\<rparr>)))
     = [(50, ''txSize''), (760, ''txSize''), (4900, ''txSize''), (1030, ''txSize''), (1, ''run'')]"
proof -
  have params: "GetParams storeKeeper (MultiStore simulateCtx) = exampleParams"
    by (simp add: storeKeeper_def simulateCtx_def)
  have sigTx: "asSigVerifiableTx simulateTx
      = Some \<lparr>GetSigners = [[9], [2], [3], [8]], GetSignaturesV2 = Inr exampleSigs\<rparr>"
    by (simp add: simulateTx_def exampleSigs_def)
  have sigs: "GetSignaturesV2 \<lparr>GetSigners = [[9], [2], [3], [8]], GetSignaturesV2 = Inr exampleSigs\<rparr>
      = Inr exampleSigs"
    by simp
  have base: "consumeGas simulateCtx
      (TxSizeCostPerByte exampleParams * word_of_nat (length (TxBytes simulateCtx))) ''txSize''
      = (meteredCtx 50 [(50, ''txSize'')], None)"
    using example_base by (simp add: exampleParams_def simulateCtx_def)
  have key: "resolvePubKey exampleGlobals
      (GetAccount storeKeeper (MultiStore (meteredCtx 50 [(50, ''txSize'')])) [2])
      = PlainPubKey ''secp256k1'' [1, 2, 3, 4, 5, 6]"
    by (simp add: resolvePubKey_def storeKeeper_def meteredCtx_def simulateCtx_def
        exampleAccounts_def)
  note inst = simulate_signature_gas [OF sigTx sigs params,
      where G = exampleGlobals and ctxBase = "meteredCtx 50 [(50, ''txSize'')]"
        and ctxSigs = "meteredCtx 6740
          [(50, ''txSize''), (760, ''txSize''), (4900, ''txSize''), (1030, ''txSize'')]"
        and txHandler = terminalHandler and rs = "\<lparr>SimulateTx_TxBytes = []\<rparr>"]
  from inst [where i = 0 and signer = "[9]" and c = simulateCtx]
  have first: "simulateSigner exampleGlobals storeKeeper exampleParams exampleSigs 0 [9] simulateCtx
     = (simulateCtx, None)"
    by (simp add: exampleSigs_def)
  from inst [where i = 1 and signer = "[2]" and c = "meteredCtx 50 [(50, ''txSize'')]"
      and sigBz = "[1, 2, 3, 4, 5, 6] @ replicate 64 0"]
  have second: "simulateSigner exampleGlobals storeKeeper exampleParams exampleSigs 1 [2]
        (meteredCtx 50 [(50, ''txSize'')])
     = consumeGas (meteredCtx 50 [(50, ''txSize'')]) (10 * (70 + 6)) ''txSize''"
    by (simp add: key example_marshal_length exampleSigs_def exampleParams_def)
  from inst [where i = 0 and signer = "[9]" and c = simulateCtx] base example_loop
  have whole: "SimulateTx (ConsumeTxSizeGasMiddleware exampleGlobals storeKeeper terminalHandler)
       simulateCtx simulateTx \<lparr>SimulateTx_TxBytes = []\<rparr>
     = SimulateTx terminalHandler (meteredCtx 6740
          [(50, ''txSize''), (760, ''txSize''), (4900, ''txSize''), (1030, ''txSize'')])
         simulateTx \<lparr>SimulateTx_TxBytes = []\<rparr>"
    by simp
  have "gasCharges (GasMeter (snd (SimulateTx terminalHandler (meteredCtx 6740
          [(50, ''txSize''), (760, ''txSize''), (4900, ''txSize''), (1030, ''txSize'')])
         simulateTx \<lparr>SimulateTx_TxBytes = []\<rparr>)))
     = [(50, ''txSize''), (760, ''txSize''), (4900, ''txSize''), (1030, ''txSize''), (1, ''run'')]"
    by (simp add: terminalHandler_def consumeGas_def ConsumeGas_def meteredCtx_def)
  with first second whole show ?thesis by simp
qed

text \<open>
  C1 as stated fails when the products do not fit 64 bits: with a signature limit of
  \<open>2^62 + 1\<close>, a cost of 10 per byte and a multi-signature key whose placeholder signature
  serialises to 64 bytes, the charge for the signer is 700, not
  \<open>10 * (64 + 6) * (2^62 + 1)\<close>.
\<close>

theorem signature_gas_overflow_counterexample:
  "gasCharges (GasMeter (snd (SimulateTx
       (ConsumeTxSizeGasMiddleware exampleGlobals storeKeeper terminalHandler)
       (overflowCtx \<lparr>MaxMemoCharacters = 3, TxSigLimit = 4611686018427387905,
                      TxSizeCostPerByte = 10\<rparr>)
       (simulateTx\<lparr>asSigVerifiableTx :=
          Some \<lparr>GetSigners = [[3]], GetSignaturesV2 = Inr []\<rparr>\<rparr>)
       \<lparr>SimulateTx_TxBytes = []\<rparr>)))
     = [(20, ''txSize''), (700, ''txSize''), (1, ''run'')]
   \<and> legacy_Cdc_MustMarshal exampleGlobals
        \<lparr>Std_PubKey = LegacyAminoPubKey 2
           [PlainPubKey ''secp256k1'' [1], PlainPubKey ''secp256k1'' [2]],
         Std_Signature = simSecp256k1Sig exampleGlobals\<rparr> = Inr (replicate 64 0)
   \<and> unat (700 :: Gas) \<noteq> 10 * ((64 + 6) * 4611686018427387905)"
  by (simp add: gas_stage_defs simulateSignatures_def simulateSigner_def resolvePubKey_def
      example_marshal_length overflowCtx_def simulateTx_def storeKeeper_def exampleAccounts_def
      terminalHandler_def consumeGas_def ConsumeGas_def)

end
